theory Spec2Isabelle
  imports Main "HOL-Library.Word" "HOL-Library.Sublist" "HOL-Library.Char_ord"
    "HOL-Library.List_Lexorder"
begin

section \<open>Strided view gradient kernels\<close>

text \<open>
  Source: \<^verbatim>\<open>paddle/phi/kernels/stride/view_grad_kernel.cc\<close>.

  The translation unit defines two kernel templates, each a single call of a forward
  kernel declared in \<^verbatim>\<open>paddle/phi/kernels/view_kernel.h\<close>. The forward kernels, the
  tensor class, the dims class and \<^verbatim>\<open>common::vectorize\<close> are declared outside
  this translation unit, so they enter the model as parameters and type parameters:

  \<^item> \<^verbatim>\<open>Context\<close>, the template parameter, is the type variable \<open>'ctx\<close>;
  \<^item> \<^verbatim>\<open>DDim\<close> is \<open>'ddim\<close> and \<^verbatim>\<open>DataType\<close> is \<open>'dtype\<close>;
  \<^item> \<^verbatim>\<open>DenseTensor\<close> is a record of what the accessors \<^verbatim>\<open>dims()\<close> and
    \<^verbatim>\<open>dtype()\<close> read, together with everything else a tensor holds (strides, offset,
    layout, the allocation with the data values) as one field of type \<open>'rest\<close>;
  \<^item> \<^verbatim>\<open>int64_t\<close> is a 64-bit word, \<^verbatim>\<open>std::vector\<close> a list;
  \<^item> a kernel writes through the pointer \<^verbatim>\<open>DenseTensor* out\<close>: in the model it takes
    the content of the output slot before the call and returns the content after it.
    A kernel may also leave by an exception (the framework's enforce checks throw), so
    the result is a sum: \<open>Inl e\<close> is the exception \<open>e\<close>, \<open>Inr t\<close> the tensor left
    in the output slot.
\<close>

type_synonym int64_t = "64 word"

record ('ddim, 'dtype, 'rest) DenseTensor =
  meta_dims :: 'ddim
  meta_dtype :: 'dtype
  tensor_rest :: 'rest

type_synonym ('ctx, 'ddim, 'dtype, 'rest, 'e) view_shape_kernel =
  "'ctx \<Rightarrow> ('ddim, 'dtype, 'rest) DenseTensor \<Rightarrow> int64_t list \<Rightarrow>
   ('ddim, 'dtype, 'rest) DenseTensor \<Rightarrow> 'e + ('ddim, 'dtype, 'rest) DenseTensor"

type_synonym ('ctx, 'ddim, 'dtype, 'rest, 'e) view_dtype_kernel =
  "'ctx \<Rightarrow> ('ddim, 'dtype, 'rest) DenseTensor \<Rightarrow> 'dtype \<Rightarrow>
   ('ddim, 'dtype, 'rest) DenseTensor \<Rightarrow> 'e + ('ddim, 'dtype, 'rest) DenseTensor"

text \<open>
  \<^verbatim>\<open>ViewShapeGradKernel(dev_ctx, input, out_grad, dims, input_grad)\<close>: the body is
  \<^verbatim>\<open>ViewShapeKernel<Context>(dev_ctx, out_grad, common::vectorize<int64_t>(input.dims()), input_grad)\<close>.
  The first two arguments of the model are the forward kernel and \<^verbatim>\<open>vectorize\<close>.
  The argument \<^verbatim>\<open>vectorize(input.dims())\<close> is a temporary built before the forward
  kernel runs, so it holds the dims \<^verbatim>\<open>input\<close> had when the gradient kernel was called,
  also when \<^verbatim>\<open>input_grad\<close> points to \<^verbatim>\<open>input\<close>. The references
  \<^verbatim>\<open>out_grad\<close> and \<^verbatim>\<open>input_grad\<close> are handed on as they were received.
\<close>

definition ViewShapeGradKernel ::
  "('ctx, 'ddim, 'dtype, 'rest, 'e) view_shape_kernel \<Rightarrow> ('ddim \<Rightarrow> int64_t list) \<Rightarrow>
   'ctx \<Rightarrow> ('ddim, 'dtype, 'rest) DenseTensor \<Rightarrow> ('ddim, 'dtype, 'rest) DenseTensor \<Rightarrow>
   int64_t list \<Rightarrow> ('ddim, 'dtype, 'rest) DenseTensor \<Rightarrow>
   'e + ('ddim, 'dtype, 'rest) DenseTensor" where
  "ViewShapeGradKernel ViewShapeKernel vectorize dev_ctx input out_grad dims input_grad =
     ViewShapeKernel dev_ctx out_grad (vectorize (meta_dims input)) input_grad"

text \<open>
  \<^verbatim>\<open>ViewDtypeGradKernel(dev_ctx, input, out_grad, dtype, input_grad)\<close>: the body is
  \<^verbatim>\<open>ViewDtypeKernel<Context>(dev_ctx, out_grad, input.dtype(), input_grad)\<close>.
\<close>

definition ViewDtypeGradKernel ::
  "('ctx, 'ddim, 'dtype, 'rest, 'e) view_dtype_kernel \<Rightarrow>
   'ctx \<Rightarrow> ('ddim, 'dtype, 'rest) DenseTensor \<Rightarrow> ('ddim, 'dtype, 'rest) DenseTensor \<Rightarrow>
   'dtype \<Rightarrow> ('ddim, 'dtype, 'rest) DenseTensor \<Rightarrow>
   'e + ('ddim, 'dtype, 'rest) DenseTensor" where
  "ViewDtypeGradKernel ViewDtypeKernel dev_ctx input out_grad dtype input_grad =
     ViewDtypeKernel dev_ctx out_grad (meta_dtype input) input_grad"

text \<open>
  The calls the specification names, written from its words: the forward shape view
  applied to \<^verbatim>\<open>out_grad\<close> with the dims of the original input, and the forward dtype
  view applied to \<^verbatim>\<open>out_grad\<close> with the dtype of the original input.
\<close>

definition forward_shape_view_of_out_grad ::
  "('ctx, 'ddim, 'dtype, 'rest, 'e) view_shape_kernel \<Rightarrow> ('ddim \<Rightarrow> int64_t list) \<Rightarrow>
   'ctx \<Rightarrow> ('ddim, 'dtype, 'rest) DenseTensor \<Rightarrow> ('ddim, 'dtype, 'rest) DenseTensor \<Rightarrow>
   ('ddim, 'dtype, 'rest) DenseTensor \<Rightarrow> 'e + ('ddim, 'dtype, 'rest) DenseTensor" where
  "forward_shape_view_of_out_grad ViewShapeKernel vectorize dev_ctx input out_grad input_grad =
     (let original_dims = vectorize (meta_dims input)
      in ViewShapeKernel dev_ctx out_grad original_dims input_grad)"

definition forward_dtype_view_of_out_grad ::
  "('ctx, 'ddim, 'dtype, 'rest, 'e) view_dtype_kernel \<Rightarrow>
   'ctx \<Rightarrow> ('ddim, 'dtype, 'rest) DenseTensor \<Rightarrow> ('ddim, 'dtype, 'rest) DenseTensor \<Rightarrow>
   ('ddim, 'dtype, 'rest) DenseTensor \<Rightarrow> 'e + ('ddim, 'dtype, 'rest) DenseTensor" where
  "forward_dtype_view_of_out_grad ViewDtypeKernel dev_ctx input out_grad input_grad =
     (let original_dtype = meta_dtype input
      in ViewDtypeKernel dev_ctx out_grad original_dtype input_grad)"

section \<open>CMake values and the commands the test lists use\<close>

text \<open>
  The two CMake files are scripts: their effect is the sequence of test-registering
  commands they invoke. The model follows the CMake language: every value is a string,
  and a list is a string whose elements are separated by semicolons.

  \<^verbatim>\<open>set(VAR a b c)\<close> stores its arguments joined by semicolons.
\<close>

fun cmake_join :: "string list \<Rightarrow> string" where
  "cmake_join [] = []"
| "cmake_join [x] = x"
| "cmake_join (x # y # ys) = x @ CHR '';'' # cmake_join (y # ys)"

definition cmake_set :: "string list \<Rightarrow> string" where
  "cmake_set arguments = cmake_join arguments"

text \<open>
  Where a string is read as a list it is divided at the semicolons that are neither
  nested in square brackets nor preceded by a backslash; the sequence backslash,
  semicolon does not divide and leaves a semicolon in the element. \<open>squareNesting\<close>
  counts the open brackets, \<open>newArg\<close> is the element being collected, and
  \<open>emptyArgs\<close> says whether empty elements are kept. \<open>CHR 0x5C\<close> is the backslash.
\<close>

fun cmExpandList :: "bool \<Rightarrow> int \<Rightarrow> string \<Rightarrow> string \<Rightarrow> string list" where
  "cmExpandList emptyArgs squareNesting newArg [] =
     (if newArg \<noteq> [] \<or> emptyArgs then [newArg] else [])"
| "cmExpandList emptyArgs squareNesting newArg (c # cs) =
     (if c = CHR 0x5C \<and> take 1 cs = '';''
        then cmExpandList emptyArgs squareNesting (newArg @ '';'') (drop 1 cs)
      else if c = CHR ''[''
        then cmExpandList emptyArgs (squareNesting + 1) (newArg @ [c]) cs
      else if c = CHR '']''
        then cmExpandList emptyArgs (squareNesting - 1) (newArg @ [c]) cs
      else if c = CHR '';'' \<and> squareNesting = 0
        then (if newArg \<noteq> [] \<or> emptyArgs then [newArg] else [])
             @ cmExpandList emptyArgs squareNesting [] cs
      else cmExpandList emptyArgs squareNesting (newArg @ [c]) cs)"

text \<open>
  An unquoted argument \<^verbatim>\<open>${VAR}\<close> contributes the elements of the variable's value as
  separate arguments and drops the empty ones. The \<^verbatim>\<open>list()\<close> command keeps empty
  elements and reads the empty string as the empty list.
\<close>

definition unquoted :: "string \<Rightarrow> string list" where
  "unquoted v = cmExpandList False 0 [] v"

definition list_elements :: "string \<Rightarrow> string list" where
  "list_elements v = (if v = [] then [] else cmExpandList True 0 [] v)"

text \<open>
  \<^verbatim>\<open>list(REMOVE_ITEM <list> <value>...)\<close> removes every instance of the given values
  and stores the remaining elements joined by semicolons.
\<close>

definition list_REMOVE_ITEM :: "string \<Rightarrow> string list \<Rightarrow> string" where
  "list_REMOVE_ITEM v items = cmake_join (filter (\<lambda>x. x \<notin> set items) (list_elements v))"

text \<open>
  \<^verbatim>\<open>string(REPLACE <match_string> <replace_string> <out> <input>)\<close> replaces every
  occurrence of the match string in the input, scanning from the left; text that has
  been replaced is not scanned again. CMake rejects an empty match string; the scripts
  here pass \<^verbatim>\<open>".py"\<close>.
\<close>

function string_REPLACE :: "string \<Rightarrow> string \<Rightarrow> string \<Rightarrow> string" where
  "string_REPLACE match_string replace_string input =
     (if match_string = [] \<or> input = [] then input
      else if prefix match_string input
        then replace_string
             @ string_REPLACE match_string replace_string (drop (length match_string) input)
      else hd input # string_REPLACE match_string replace_string (tl input))"
  by pat_completeness auto
termination
  by (relation "measure (\<lambda>(m, r, i). length i)") auto

text \<open>
  \<^verbatim>\<open>file(GLOB <out> RELATIVE <dir> <expr>)\<close> yields the names in the directory that
  match the globbing expression, sorted and without duplicates, joined by semicolons.
  The directory is a parameter of the model: the list of the names of its entries. Of
  the globbing syntax the expression \<^verbatim>\<open>test_*.py\<close> uses literal characters and the
  wildcard \<^verbatim>\<open>*\<close>, which matches any run of characters; matching is case-sensitive.
\<close>

fun glob_match :: "string \<Rightarrow> string \<Rightarrow> bool" where
  "glob_match [] [] = True"
| "glob_match [] (c # cs) = False"
| "glob_match (p # ps) [] = (p = CHR ''*'' \<and> glob_match ps [])"
| "glob_match (p # ps) (c # cs) =
     (if p = CHR ''*'' then glob_match ps (c # cs) \<or> glob_match (p # ps) cs
      else p = c \<and> glob_match ps cs)"

definition glob_names :: "string \<Rightarrow> string list \<Rightarrow> string list" where
  "glob_names expr directory = sort (remdups (filter (glob_match expr) directory))"

definition file_GLOB :: "string \<Rightarrow> string list \<Rightarrow> string" where
  "file_GLOB expr directory = cmake_join (glob_names expr directory)"

text \<open>
  A command invocation is the command's name with its arguments after expansion. The
  macros \<^verbatim>\<open>py_test_modules\<close>, \<^verbatim>\<open>cc_test\<close>, \<^verbatim>\<open>paddle_test\<close> and
  \<^verbatim>\<open>copy_onnx\<close> are defined elsewhere in the repository; a script's result is the list of its
  invocations of them, in order.
\<close>

type_synonym invocation = "string \<times> string list"

section \<open>The test list of test/prim/pir-prim\<close>

text \<open>Source: \<^verbatim>\<open>test/prim/pir_prim/CMakeLists.txt\<close>.\<close>

definition TEST_PRIM_PURE_PIR_CASES :: string where
  "TEST_PRIM_PURE_PIR_CASES = cmake_set
     [''test_prim_program'',
      ''test_prim_simpnet'',
      ''test_prim_custom_vjp'',
      ''test_prim_jit'',
      ''test_pir_prim_flags'',
      ''test_sink_decomp'',
      ''test_prim_dynamic'']"

text \<open>The first loop, over \<^verbatim>\<open>${TEST_PRIM_PURE_PIR_CASES}\<close>.\<close>

definition pure_pir_tests :: "invocation list" where
  "pure_pir_tests =
     map (\<lambda>target.
           (''py_test_modules'',
            unquoted target @ [''MODULES''] @ unquoted target
            @ [''ENVS'', ''GLOG_v=1'', ''FLAGS_enable_pir_api=true'', ''FLAGS_prim_skip_dynamic=1'']))
         (unquoted TEST_PRIM_PURE_PIR_CASES)"

text \<open>
  \<^verbatim>\<open>TEST_PRIM_TRANS_PIR_CASES\<close> after the three commands that compute it: the glob,
  the replacement of \<^verbatim>\<open>".py"\<close> by the empty string in the quoted list, and the removal
  of the pure cases.
\<close>

definition TEST_PRIM_TRANS_PIR_CASES :: "string list \<Rightarrow> string" where
  "TEST_PRIM_TRANS_PIR_CASES directory =
     list_REMOVE_ITEM
       (string_REPLACE ''.py'' [] (file_GLOB ''test_*.py'' directory))
       (unquoted TEST_PRIM_PURE_PIR_CASES)"

text \<open>The second loop, over \<^verbatim>\<open>${TEST_PRIM_TRANS_PIR_CASES}\<close>.\<close>

definition trans_pir_tests :: "string list \<Rightarrow> invocation list" where
  "trans_pir_tests directory =
     map (\<lambda>target.
           (''py_test_modules'',
            unquoted target @ [''MODULES''] @ unquoted target
            @ [''ENVS'', ''GLOG_v=1'', ''FLAGS_enable_pir_in_executor=true'']))
         (unquoted (TEST_PRIM_TRANS_PIR_CASES directory))"

definition pir_prim_CMakeLists :: "string list \<Rightarrow> invocation list" where
  "pir_prim_CMakeLists directory = pure_pir_tests @ trans_pir_tests directory"

text \<open>
  Vocabulary for the properties. The target an invocation registers is its first
  argument. The module of a file \<^verbatim>\<open>m.py\<close> is \<^verbatim>\<open>m\<close>. A plain module
  file is one whose module name does not contain \<^verbatim>\<open>.py\<close> and whose name has none of
  the characters of CMake's list syntax (semicolon, square brackets, backslash).
\<close>

definition registered_target :: "invocation \<Rightarrow> string" where
  "registered_target i = concat (take 1 (snd i))"

definition module_of :: "string \<Rightarrow> string" where
  "module_of f = take (length f - 3) f"

definition list_syntax :: "char \<Rightarrow> bool" where
  "list_syntax c \<longleftrightarrow> c = CHR '';'' \<or> c = CHR ''['' \<or> c = CHR '']'' \<or> c = CHR 0x5C"

definition plain_module_file :: "string \<Rightarrow> bool" where
  "plain_module_file f \<longleftrightarrow> \<not> sublist ''.py'' (module_of f) \<and> \<not> list_ex list_syntax f"

text \<open>
  A test module is a Python module: the name of its file is a Python identifier
  followed by \<^verbatim>\<open>.py\<close>. The characters of an identifier are the ASCII letters, the
  digits, the underscore and the bytes of non-ASCII characters.
\<close>

definition identifier_char :: "char \<Rightarrow> bool" where
  "identifier_char c \<longleftrightarrow>
     (CHR ''a'' \<le> c \<and> c \<le> CHR ''z'') \<or> (CHR ''A'' \<le> c \<and> c \<le> CHR ''Z'')
     \<or> (CHR ''0'' \<le> c \<and> c \<le> CHR ''9'') \<or> c = CHR ''_'' \<or> CHR 0x80 \<le> c"

definition python_module_file :: "string \<Rightarrow> bool" where
  "python_module_file f \<longleftrightarrow> list_all identifier_char (module_of f)"

text \<open>
  The two forms of registration the loops make: \<open>pure_regime t\<close> is the invocation
  of the first loop for the target \<open>t\<close>, \<open>trans_regime t\<close> that of the second
  loop.
\<close>

definition pure_regime :: "string \<Rightarrow> invocation" where
  "pure_regime t =
     (''py_test_modules'',
      [t, ''MODULES'', t,
       ''ENVS'', ''GLOG_v=1'', ''FLAGS_enable_pir_api=true'', ''FLAGS_prim_skip_dynamic=1''])"

definition trans_regime :: "string \<Rightarrow> invocation" where
  "trans_regime t =
     (''py_test_modules'',
      [t, ''MODULES'', t, ''ENVS'', ''GLOG_v=1'', ''FLAGS_enable_pir_in_executor=true''])"

section \<open>The test list of the oneDNN operator tests\<close>

text \<open>
  Source: \<^verbatim>\<open>unnamed/part_000\<close>, a \<^verbatim>\<open>CMakeLists.txt\<close> that declares the
  C++ tests of the oneDNN operators. The options tested by its
  \<^verbatim>\<open>if()\<close> commands are parameters. \<^verbatim>\<open>get_property(paddle_lib ...)\<close> sets a variable
  that the script does not use.
\<close>

record cmake_options =
  WITH_GPU :: bool
  WITH_ROCM :: bool
  WITH_TESTING :: bool
  WITH_ONNXRUNTIME :: bool
  WIN32 :: bool

definition TEST_MKLDNN_CACHING_DEPS :: "cmake_options \<Rightarrow> string" where
  "TEST_MKLDNN_CACHING_DEPS opts =
     (let deps = cmake_set
        [''op_registry'',
         ''elementwise_mul_op'',
         ''elementwise_add_op'',
         ''activation_op'',
         ''phi'',
         ''common'',
         ''scope'',
         ''device_context'',
         ''enforce'',
         ''generated_static_op'']
      in if WITH_GPU opts \<or> WITH_ROCM opts
         then cmake_set (unquoted deps @ [''depthwise_conv''])
         else deps)"

definition mkldnn_test_list :: "cmake_options \<Rightarrow> invocation list" where
  "mkldnn_test_list opts =
     [(''cc_test'',
       [''test_mkldnn_op_inplace'',
        ''SRCS'', ''test_mkldnn_op_inplace.cc'',
        ''DEPS'', ''executor'',
        ''op_registry'',
        ''elementwise_add_op'',
        ''activation_op'',
        ''phi'',
        ''common'',
        ''scope'',
        ''device_context'',
        ''enforce'',
        ''generated_static_op'']),
      (''cc_test'',
       [''test_mkldnn_cpu_quantize_pass'',
        ''SRCS'', ''test_mkldnn_cpu_quantize_pass.cc'',
        ''DEPS'', ''executor'',
        ''op_registry'',
        ''activation_op'',
        ''conv_activation_mkldnn_fuse_pass'',
        ''cpu_quantize_placement_pass'',
        ''cpu_quantize_pass'',
        ''phi'',
        ''common'',
        ''scope'',
        ''device_context'']),
      (''cc_test'',
       [''test_conv_mkldnn_nhwc'',
        ''SRCS'', ''test_conv_mkldnn_nhwc.cc'',
        ''DEPS'', ''executor'',
        ''op_registry'',
        ''depthwise_conv'',
        ''tensor'',
        ''phi'',
        ''common'',
        ''scope'',
        ''device_context'',
        ''enforce'',
        ''generated_static_op'']),
      (''cc_test'',
       [''test_mkldnn_caching'',
        ''SRCS'', ''test_mkldnn_caching.cc'',
        ''DEPS''] @ unquoted (TEST_MKLDNN_CACHING_DEPS opts))]
     @ (if WITH_TESTING opts
        then [(''paddle_test'', [''test_mkldnn_op_nhwc'', ''SRCS'', ''test_mkldnn_op_nhwc.cc''])]
        else [])
     @ [(''cc_test'',
         [''test_mkldnn_pool_adaptive_op'',
          ''SRCS'', ''test_mkldnn_pool_adaptive_op.cc'',
          ''DEPS'', ''fleet_executor'',
          ''conditional_block_op'',
          ''executor'',
          ''op_registry'',
          ''generated_static_op'',
          ''generated_op'',
          ''phi'',
          ''common'',
          ''scope'',
          ''device_context'',
          ''enforce'']),
        (''cc_test'',
         [''test_mkldnn_squeeze'',
          ''SRCS'', ''test_mkldnn_squeeze.cc'',
          ''DEPS'', ''fleet_executor'',
          ''conditional_block_op'',
          ''executor'',
          ''op_registry'',
          ''generated_static_op'',
          ''generated_op'',
          ''phi'',
          ''scope'',
          ''device_context'',
          ''enforce''])]
     @ (if WITH_ONNXRUNTIME opts \<and> WIN32 opts
        then [(''copy_onnx'', [''test_mkldnn_op_nhwc''])]
        else [])"

text \<open>
  The dependencies an invocation of \<^verbatim>\<open>cc_test\<close> declares are the arguments that
  follow the keyword \<^verbatim>\<open>DEPS\<close>; in every invocation of this script it is the last
  keyword.
\<close>

definition DEPS :: "string list \<Rightarrow> string list" where
  "DEPS arguments = drop 1 (dropWhile (\<lambda>a. a \<noteq> ''DEPS'') arguments)"

section \<open>Properties of the view gradient kernels\<close>

text \<open>
  C1. For every device context, input, upstream gradient, dims vector and output slot,
  \<^verbatim>\<open>ViewShapeGradKernel(dev_ctx, input, out_grad, dims, input_grad)\<close> has the same
  effect (the same exception, or the same tensor left in \<^verbatim>\<open>input_grad\<close>) as the forward
  kernel \<^verbatim>\<open>ViewShapeKernel(dev_ctx, out_grad, vectorize(input.dims()), input_grad)\<close>.
\<close>

theorem ViewShapeGradKernel_is_forward_view:
  "ViewShapeGradKernel ViewShapeKernel vectorize dev_ctx input out_grad dims input_grad =
   forward_shape_view_of_out_grad ViewShapeKernel vectorize dev_ctx input out_grad input_grad"
  by (simp add: ViewShapeGradKernel_def forward_shape_view_of_out_grad_def)

text \<open>
  C2. For every device context, input, upstream gradient, data type and output slot,
  \<^verbatim>\<open>ViewDtypeGradKernel(dev_ctx, input, out_grad, dtype, input_grad)\<close> has the same
  effect as the forward kernel
  \<^verbatim>\<open>ViewDtypeKernel(dev_ctx, out_grad, input.dtype(), input_grad)\<close>.
\<close>

theorem ViewDtypeGradKernel_is_forward_view:
  "ViewDtypeGradKernel ViewDtypeKernel dev_ctx input out_grad dtype input_grad =
   forward_dtype_view_of_out_grad ViewDtypeKernel dev_ctx input out_grad input_grad"
  by (simp add: ViewDtypeGradKernel_def forward_dtype_view_of_out_grad_def)

text \<open>
  C3. Suppose the forward kernel \<^verbatim>\<open>ViewShapeKernel\<close> always produces an output tensor
  whose dims are the dims vector it is given. Then for every input and upstream gradient
  the gradient kernel produces an output too, and the dims of \<^verbatim>\<open>input_grad\<close> after the
  call are the dims of \<^verbatim>\<open>input\<close>, whatever the argument \<^verbatim>\<open>dims\<close> is. Dims are
  compared with a vector, and with each other, by their extents, as the hypothesis does;
  where \<^verbatim>\<open>vectorize\<close> is injective the two dims values themselves are equal.
\<close>

theorem ViewShapeGradKernel_input_grad_dims:
  assumes forward: "\<And>dev_ctx x d out.
    \<exists>t. ViewShapeKernel dev_ctx x d out = Inr t \<and> vectorize (meta_dims t) = d"
  shows "\<exists>t. ViewShapeGradKernel ViewShapeKernel vectorize dev_ctx input out_grad dims input_grad = Inr t
           \<and> vectorize (meta_dims t) = vectorize (meta_dims input)
           \<and> (inj vectorize \<longrightarrow> meta_dims t = meta_dims input)"
proof -
  from forward obtain t where
    t: "ViewShapeKernel dev_ctx out_grad (vectorize (meta_dims input)) input_grad = Inr t"
    and d: "vectorize (meta_dims t) = vectorize (meta_dims input)"
    by blast
  from d have "inj vectorize \<longrightarrow> meta_dims t = meta_dims input"
    by (auto dest: injD)
  with t d show ?thesis
    by (simp add: ViewShapeGradKernel_def)
qed

theorem ViewShapeGradKernel_input_grad_dims_witness:
  "(\<forall>dev_ctx x d out. \<exists>t.
      (\<lambda>(c :: string) (x :: (int64_t list, string, nat list) DenseTensor) d
         (out :: (int64_t list, string, nat list) DenseTensor).
         (Inr (x\<lparr>meta_dims := d\<rparr>) :: string + (int64_t list, string, nat list) DenseTensor))
        dev_ctx x d out = Inr t \<and> (\<lambda>d. d) (meta_dims t) = d)
   \<and> inj (\<lambda>d :: int64_t list. d)
   \<and> (\<exists>t. ViewShapeGradKernel
          (\<lambda>(c :: string) (x :: (int64_t list, string, nat list) DenseTensor) d
             (out :: (int64_t list, string, nat list) DenseTensor).
             (Inr (x\<lparr>meta_dims := d\<rparr>) :: string + (int64_t list, string, nat list) DenseTensor))
          (\<lambda>d. d) ''CPU''
          \<lparr>meta_dims = [2, 3], meta_dtype = ''FLOAT32'', tensor_rest = [1, 2, 3, 4, 5, 6]\<rparr>
          \<lparr>meta_dims = [6], meta_dtype = ''FLOAT32'', tensor_rest = [10, 20, 30, 40, 50, 60]\<rparr>
          [3, 2]
          \<lparr>meta_dims = [], meta_dtype = ''UNDEFINED'', tensor_rest = []\<rparr> = Inr t
        \<and> meta_dims t = [2, 3])"
  using ViewShapeGradKernel_input_grad_dims
    [where ViewShapeKernel =
       "\<lambda>(c :: string) (x :: (int64_t list, string, nat list) DenseTensor) d
          (out :: (int64_t list, string, nat list) DenseTensor).
          (Inr (x\<lparr>meta_dims := d\<rparr>) :: string + (int64_t list, string, nat list) DenseTensor)"
     and vectorize = "\<lambda>d. d" and dev_ctx = "''CPU''"
     and input = "\<lparr>meta_dims = [2, 3], meta_dtype = ''FLOAT32'', tensor_rest = [1, 2, 3, 4, 5, 6]\<rparr>"
     and out_grad = "\<lparr>meta_dims = [6], meta_dtype = ''FLOAT32'', tensor_rest = [10, 20, 30, 40, 50, 60]\<rparr>"
     and dims = "[3, 2]"
     and input_grad = "\<lparr>meta_dims = [], meta_dtype = ''UNDEFINED'', tensor_rest = []\<rparr>"]
  by simp

text \<open>
  The forward kernel of the repository rejects some dims vectors by an exception. For a
  forward kernel that sets the dims whenever it returns, the gradient kernel does so
  whenever it returns.
\<close>

lemma ViewShapeGradKernel_dims_if_returns:
  assumes "\<And>dev_ctx x d out t.
      ViewShapeKernel dev_ctx x d out = Inr t \<Longrightarrow> vectorize (meta_dims t) = d"
    and "ViewShapeGradKernel ViewShapeKernel vectorize dev_ctx input out_grad dims input_grad = Inr t"
  shows "vectorize (meta_dims t) = vectorize (meta_dims input)"
  using assms by (simp add: ViewShapeGradKernel_def)

text \<open>
  C4. The result of \<^verbatim>\<open>ViewShapeGradKernel\<close> depends on \<^verbatim>\<open>input\<close> and
  \<^verbatim>\<open>dims\<close> only through \<^verbatim>\<open>input.dims()\<close>: two calls with the same device context,
  the same upstream gradient and the same output slot, whose inputs have equal dims
  (their dtypes and data may differ) and whose \<^verbatim>\<open>dims\<close> arguments are arbitrary, leave
  the same result in \<^verbatim>\<open>input_grad\<close>.
\<close>

theorem ViewShapeGradKernel_noninterference:
  "meta_dims input1 = meta_dims input2 \<Longrightarrow>
   ViewShapeGradKernel ViewShapeKernel vectorize dev_ctx input1 out_grad dims1 input_grad =
   ViewShapeGradKernel ViewShapeKernel vectorize dev_ctx input2 out_grad dims2 input_grad"
  by (simp add: ViewShapeGradKernel_def)

theorem ViewShapeGradKernel_noninterference_witness:
  "meta_dims \<lparr>meta_dims = [2, 3 :: int64_t], meta_dtype = ''FLOAT32'', tensor_rest = [1, 2, 3, 4, 5, 6 :: nat]\<rparr>
     = meta_dims \<lparr>meta_dims = [2, 3 :: int64_t], meta_dtype = ''INT64'', tensor_rest = [7, 7, 7, 7, 7, 7 :: nat]\<rparr>
   \<and> ViewShapeGradKernel
        (\<lambda>(c :: string) (x :: (int64_t list, string, nat list) DenseTensor) d
           (out :: (int64_t list, string, nat list) DenseTensor).
           (Inr (x\<lparr>meta_dims := d\<rparr>) :: string + (int64_t list, string, nat list) DenseTensor))
        (\<lambda>d. d) ''CPU''
        \<lparr>meta_dims = [2, 3], meta_dtype = ''FLOAT32'', tensor_rest = [1, 2, 3, 4, 5, 6]\<rparr>
        \<lparr>meta_dims = [6], meta_dtype = ''FLOAT32'', tensor_rest = [10, 20, 30, 40, 50, 60]\<rparr>
        [3, 2]
        \<lparr>meta_dims = [], meta_dtype = ''UNDEFINED'', tensor_rest = []\<rparr>
      = ViewShapeGradKernel
        (\<lambda>(c :: string) (x :: (int64_t list, string, nat list) DenseTensor) d
           (out :: (int64_t list, string, nat list) DenseTensor).
           (Inr (x\<lparr>meta_dims := d\<rparr>) :: string + (int64_t list, string, nat list) DenseTensor))
        (\<lambda>d. d) ''CPU''
        \<lparr>meta_dims = [2, 3], meta_dtype = ''INT64'', tensor_rest = [7, 7, 7, 7, 7, 7]\<rparr>
        \<lparr>meta_dims = [6], meta_dtype = ''FLOAT32'', tensor_rest = [10, 20, 30, 40, 50, 60]\<rparr>
        [1, 6]
        \<lparr>meta_dims = [], meta_dtype = ''UNDEFINED'', tensor_rest = []\<rparr>"
  using ViewShapeGradKernel_noninterference
    [where ViewShapeKernel =
       "\<lambda>(c :: string) (x :: (int64_t list, string, nat list) DenseTensor) d
          (out :: (int64_t list, string, nat list) DenseTensor).
          (Inr (x\<lparr>meta_dims := d\<rparr>) :: string + (int64_t list, string, nat list) DenseTensor)"
     and vectorize = "\<lambda>d. d" and dev_ctx = "''CPU''"
     and ?input1.0 = "\<lparr>meta_dims = [2, 3], meta_dtype = ''FLOAT32'', tensor_rest = [1, 2, 3, 4, 5, 6]\<rparr>"
     and ?input2.0 = "\<lparr>meta_dims = [2, 3], meta_dtype = ''INT64'', tensor_rest = [7, 7, 7, 7, 7, 7]\<rparr>"
     and out_grad = "\<lparr>meta_dims = [6], meta_dtype = ''FLOAT32'', tensor_rest = [10, 20, 30, 40, 50, 60]\<rparr>"
     and ?dims1.0 = "[3, 2]" and ?dims2.0 = "[1, 6]"
     and input_grad = "\<lparr>meta_dims = [], meta_dtype = ''UNDEFINED'', tensor_rest = []\<rparr>"]
  by simp

text \<open>
  C5. The result of \<^verbatim>\<open>ViewDtypeGradKernel\<close> depends on \<^verbatim>\<open>input\<close> and
  \<^verbatim>\<open>dtype\<close> only through \<^verbatim>\<open>input.dtype()\<close>: two calls with the same device context,
  the same upstream gradient and the same output slot, whose inputs have the same dtype
  (their shapes and data may differ) and whose \<^verbatim>\<open>dtype\<close> arguments are arbitrary,
  leave the same result in \<^verbatim>\<open>input_grad\<close>.
\<close>

theorem ViewDtypeGradKernel_noninterference:
  "meta_dtype input1 = meta_dtype input2 \<Longrightarrow>
   ViewDtypeGradKernel ViewDtypeKernel dev_ctx input1 out_grad dtype1 input_grad =
   ViewDtypeGradKernel ViewDtypeKernel dev_ctx input2 out_grad dtype2 input_grad"
  by (simp add: ViewDtypeGradKernel_def)

theorem ViewDtypeGradKernel_noninterference_witness:
  "meta_dtype \<lparr>meta_dims = [2, 3 :: int64_t], meta_dtype = ''FLOAT32'', tensor_rest = [1, 2, 3, 4, 5, 6 :: nat]\<rparr>
     = meta_dtype \<lparr>meta_dims = [4 :: int64_t], meta_dtype = ''FLOAT32'', tensor_rest = [7, 7, 7, 7 :: nat]\<rparr>
   \<and> ViewDtypeGradKernel
        (\<lambda>(c :: string) (x :: (int64_t list, string, nat list) DenseTensor) dt
           (out :: (int64_t list, string, nat list) DenseTensor).
           (Inr (x\<lparr>meta_dtype := dt\<rparr>) :: string + (int64_t list, string, nat list) DenseTensor))
        ''CPU''
        \<lparr>meta_dims = [2, 3], meta_dtype = ''FLOAT32'', tensor_rest = [1, 2, 3, 4, 5, 6]\<rparr>
        \<lparr>meta_dims = [6], meta_dtype = ''INT32'', tensor_rest = [10, 20, 30, 40, 50, 60]\<rparr>
        ''INT32''
        \<lparr>meta_dims = [], meta_dtype = ''UNDEFINED'', tensor_rest = []\<rparr>
      = ViewDtypeGradKernel
        (\<lambda>(c :: string) (x :: (int64_t list, string, nat list) DenseTensor) dt
           (out :: (int64_t list, string, nat list) DenseTensor).
           (Inr (x\<lparr>meta_dtype := dt\<rparr>) :: string + (int64_t list, string, nat list) DenseTensor))
        ''CPU''
        \<lparr>meta_dims = [4], meta_dtype = ''FLOAT32'', tensor_rest = [7, 7, 7, 7]\<rparr>
        \<lparr>meta_dims = [6], meta_dtype = ''INT32'', tensor_rest = [10, 20, 30, 40, 50, 60]\<rparr>
        ''INT8''
        \<lparr>meta_dims = [], meta_dtype = ''UNDEFINED'', tensor_rest = []\<rparr>"
  using ViewDtypeGradKernel_noninterference
    [where ViewDtypeKernel =
       "\<lambda>(c :: string) (x :: (int64_t list, string, nat list) DenseTensor) dt
          (out :: (int64_t list, string, nat list) DenseTensor).
          (Inr (x\<lparr>meta_dtype := dt\<rparr>) :: string + (int64_t list, string, nat list) DenseTensor)"
     and dev_ctx = "''CPU''"
     and ?input1.0 = "\<lparr>meta_dims = [2, 3], meta_dtype = ''FLOAT32'', tensor_rest = [1, 2, 3, 4, 5, 6]\<rparr>"
     and ?input2.0 = "\<lparr>meta_dims = [4], meta_dtype = ''FLOAT32'', tensor_rest = [7, 7, 7, 7]\<rparr>"
     and out_grad = "\<lparr>meta_dims = [6], meta_dtype = ''INT32'', tensor_rest = [10, 20, 30, 40, 50, 60]\<rparr>"
     and ?dtype1.0 = "''INT32''" and ?dtype2.0 = "''INT8''"
     and input_grad = "\<lparr>meta_dims = [], meta_dtype = ''UNDEFINED'', tensor_rest = []\<rparr>"]
  by simp

section \<open>Properties of the test lists\<close>

subsection \<open>Reading a joined list back\<close>

lemma cmExpandList_plain:
  "\<not> list_ex list_syntax x \<Longrightarrow>
   cmExpandList e 0 acc (x @ rest) = cmExpandList e 0 (acc @ x) rest"
proof (induction x arbitrary: acc)
  case Nil
  then show ?case by simp
next
  case (Cons c x)
  then have "\<not> list_syntax c" and x: "\<not> list_ex list_syntax x"
    by simp_all
  then have c: "c \<noteq> CHR 0x5C" "c \<noteq> CHR ''[''" "c \<noteq> CHR '']''" "c \<noteq> CHR '';''"
    by (simp_all add: list_syntax_def)
  from c Cons.IH [OF x, of "acc @ [c]"] show ?case by simp
qed

lemma cmExpandList_separator:
  "cmExpandList e 0 acc (CHR '';'' # rest) =
   (if acc \<noteq> [] \<or> e then [acc] else []) @ cmExpandList e 0 [] rest"
  by simp

lemma cmExpandList_join:
  "\<forall>x \<in> set xs. x \<noteq> [] \<and> \<not> list_ex list_syntax x \<Longrightarrow> xs \<noteq> [] \<Longrightarrow>
   cmExpandList e 0 [] (cmake_join xs) = xs"
proof (induction xs rule: cmake_join.induct)
  case 1
  then show ?case by simp
next
  case (2 x)
  then have "x \<noteq> []" "\<not> list_ex list_syntax x" by auto
  with cmExpandList_plain [of x e "[]" "[]"] show ?case by simp
next
  case (3 x y ys)
  then have x: "x \<noteq> []" "\<not> list_ex list_syntax x" by auto
  from 3 have "cmExpandList e 0 [] (cmake_join (y # ys)) = y # ys" by simp
  with x cmExpandList_plain [of x e "[]" "CHR '';'' # cmake_join (y # ys)"]
  show ?case by (simp del: cmExpandList.simps add: cmExpandList_separator)
qed

lemma cmake_join_eq_Nil:
  "\<forall>x \<in> set xs. x \<noteq> [] \<Longrightarrow> cmake_join xs = [] \<longleftrightarrow> xs = []"
  by (induction xs rule: cmake_join.induct) auto

lemma unquoted_join:
  "\<forall>x \<in> set xs. x \<noteq> [] \<and> \<not> list_ex list_syntax x \<Longrightarrow> unquoted (cmake_join xs) = xs"
  using cmExpandList_join [of xs False] by (cases "xs = []") (auto simp: unquoted_def)

lemma list_elements_join:
  "\<forall>x \<in> set xs. x \<noteq> [] \<and> \<not> list_ex list_syntax x \<Longrightarrow> list_elements (cmake_join xs) = xs"
  using cmExpandList_join [of xs True] cmake_join_eq_Nil [of xs]
  by (cases "xs = []") (auto simp: list_elements_def)

lemma unquoted_plain:
  "x \<noteq> [] \<Longrightarrow> \<not> list_ex list_syntax x \<Longrightarrow> unquoted x = [x]"
  using unquoted_join [of "[x]"] by simp

subsection \<open>Replacement\<close>

text \<open>Replacement acts on each element of a joined list separately.\<close>

declare string_REPLACE.simps [simp del]

lemma string_REPLACE_Nil: "string_REPLACE m r [] = []"
  by (simp add: string_REPLACE.simps)

lemma string_REPLACE_empty_match: "string_REPLACE [] r s = s"
  by (simp add: string_REPLACE.simps)

lemma string_REPLACE_prefix:
  "m \<noteq> [] \<Longrightarrow> prefix m s \<Longrightarrow>
   string_REPLACE m r s = r @ string_REPLACE m r (drop (length m) s)"
  by (subst string_REPLACE.simps) auto

lemma string_REPLACE_no_prefix:
  "\<not> prefix m (x # xs) \<Longrightarrow> string_REPLACE m r (x # xs) = x # string_REPLACE m r xs"
  by (subst string_REPLACE.simps) auto

lemma prefix_append_separator:
  assumes "c \<notin> set m"
  shows "prefix m (a @ c # b) \<longleftrightarrow> prefix m a"
proof
  assume "prefix m (a @ c # b)"
  then have "prefix m a \<or> (\<exists>us. m = a @ us \<and> us \<noteq> [] \<and> prefix us (c # b))"
    by (auto simp: prefix_append)
  with assms show "prefix m a"
    by (auto simp: prefix_Cons neq_Nil_conv)
next
  assume "prefix m a"
  then show "prefix m (a @ c # b)" by (rule prefix_prefix)
qed

lemma string_REPLACE_separator:
  assumes "c \<notin> set m"
  shows "string_REPLACE m r (a @ c # b) = string_REPLACE m r a @ c # string_REPLACE m r b"
proof (induction a rule: length_induct)
  case (1 a)
  show ?case
  proof (cases "m = []")
    case True
    then show ?thesis by (simp add: string_REPLACE_empty_match)
  next
    case m: False
    show ?thesis
    proof (cases "prefix m a")
      case True
      then have len: "length m \<le> length a" by (rule prefix_length_le)
      with m have "length (drop (length m) a) < length a" by (cases m) auto
      with 1 have IH: "string_REPLACE m r (drop (length m) a @ c # b) =
        string_REPLACE m r (drop (length m) a) @ c # string_REPLACE m r b"
        by blast
      from True have "prefix m (a @ c # b)" by (rule prefix_prefix)
      with m have "string_REPLACE m r (a @ c # b) =
        r @ string_REPLACE m r (drop (length m) (a @ c # b))"
        by (rule string_REPLACE_prefix)
      also from len have "drop (length m) (a @ c # b) = drop (length m) a @ c # b"
        by simp
      finally show ?thesis
        using IH string_REPLACE_prefix [OF m True, of r] by simp
    next
      case False
      with assms have np: "\<not> prefix m (a @ c # b)"
        by (simp add: prefix_append_separator)
      show ?thesis
      proof (cases a)
        case Nil
        with np show ?thesis
          by (simp add: string_REPLACE_no_prefix string_REPLACE_Nil)
      next
        case (Cons x xs)
        with 1 have "string_REPLACE m r (xs @ c # b) =
          string_REPLACE m r xs @ c # string_REPLACE m r b"
          by simp
        with np False Cons show ?thesis
          by (simp add: string_REPLACE_no_prefix)
      qed
    qed
  qed
qed

lemma string_REPLACE_join:
  "CHR '';'' \<notin> set m \<Longrightarrow>
   string_REPLACE m r (cmake_join xs) = cmake_join (map (string_REPLACE m r) xs)"
  by (induction xs rule: cmake_join.induct)
     (simp_all add: string_REPLACE_Nil string_REPLACE_separator)

lemma string_REPLACE_py_extension:
  "\<not> sublist ''.py'' s \<Longrightarrow> string_REPLACE ''.py'' [] (s @ ''.py'') = s"
proof (induction s)
  case Nil
  have "string_REPLACE ''.py'' [] ''.py'' = [] @ string_REPLACE ''.py'' [] (drop (length ''.py'') ''.py'')"
    by (rule string_REPLACE_prefix) simp_all
  then show ?case by (simp add: string_REPLACE_Nil)
next
  case (Cons c s)
  then have np: "\<not> prefix ''.py'' (c # s)" and ns: "\<not> sublist ''.py'' s"
    by (simp_all add: sublist_Cons_right)
  have "\<not> prefix ''.py'' (c # s @ ''.py'')"
  proof
    assume p: "prefix ''.py'' (c # s @ ''.py'')"
    show False
    proof (cases s)
      case Nil
      with p show False by simp
    next
      case s1: (Cons d s')
      show False
      proof (cases s')
        case Nil
        with p s1 show False by simp
      next
        case (Cons e s'')
        with p s1 np show False by simp
      qed
    qed
  qed
  then have "string_REPLACE ''.py'' [] (c # s @ ''.py'') = c # string_REPLACE ''.py'' [] (s @ ''.py'')"
    by (rule string_REPLACE_no_prefix)
  with Cons.IH [OF ns] show ?case by simp
qed



subsection \<open>The globbing expression\<close>

lemma glob_match_literal:
  "p \<noteq> CHR ''*'' \<Longrightarrow> glob_match (p # ps) s \<longleftrightarrow> (\<exists>t. s = p # t \<and> glob_match ps t)"
  by (cases s) auto

lemma glob_match_star:
  "glob_match (CHR ''*'' # ps) s \<longleftrightarrow> (\<exists>a b. s = a @ b \<and> glob_match ps b)"
proof (induction s)
  case Nil
  then show ?case by simp
next
  case (Cons c s)
  show ?case
  proof
    assume "glob_match (CHR ''*'' # ps) (c # s)"
    then consider "glob_match ps (c # s)" | "glob_match (CHR ''*'' # ps) s" by auto
    then show "\<exists>a b. c # s = a @ b \<and> glob_match ps b"
    proof cases
      case 1
      then have "c # s = [] @ (c # s) \<and> glob_match ps (c # s)" by simp
      then show ?thesis by blast
    next
      case 2
      with Cons.IH obtain a b where "s = a @ b" "glob_match ps b" by blast
      then have "c # s = (c # a) @ b \<and> glob_match ps b" by simp
      then show ?thesis by blast
    qed
  next
    assume "\<exists>a b. c # s = a @ b \<and> glob_match ps b"
    then obtain a b where ab: "c # s = a @ b" and b: "glob_match ps b" by blast
    show "glob_match (CHR ''*'' # ps) (c # s)"
    proof (cases a)
      case Nil
      with ab b have "glob_match ps (c # s)" by simp
      then show ?thesis by simp
    next
      case (Cons x a')
      with ab have "s = a' @ b" by simp
      with b Cons.IH have "glob_match (CHR ''*'' # ps) s" by blast
      then show ?thesis by simp
    qed
  qed
qed

lemma glob_match_Nil: "glob_match [] s \<longleftrightarrow> s = []"
  by (cases s) auto

lemma glob_match_py: "glob_match ''.py'' b \<longleftrightarrow> b = ''.py''"
  by (auto simp add: glob_match_literal glob_match_Nil simp del: glob_match.simps)

lemma glob_match_star_py: "glob_match ''*.py'' s \<longleftrightarrow> (\<exists>a. s = a @ ''.py'')"
  by (subst glob_match_star) (simp add: glob_match_py del: glob_match.simps)

lemma glob_match_test_py:
  "glob_match ''test_*.py'' f \<longleftrightarrow> (\<exists>m. f = ''test_'' @ m @ ''.py'')"
  by (auto simp add: glob_match_literal glob_match_star_py simp del: glob_match.simps)

lemma module_of_py: "module_of (s @ ''.py'') = s"
  by (simp add: module_of_def)

subsection \<open>The two loops\<close>

lemma unquoted_PURE:
  "unquoted TEST_PRIM_PURE_PIR_CASES =
   [''test_prim_program'', ''test_prim_simpnet'', ''test_prim_custom_vjp'', ''test_prim_jit'',
    ''test_pir_prim_flags'', ''test_sink_decomp'', ''test_prim_dynamic'']"
  by code_simp

lemma pure_pir_tests_eq:
  "pure_pir_tests = map pure_regime
     [''test_prim_program'', ''test_prim_simpnet'', ''test_prim_custom_vjp'', ''test_prim_jit'',
      ''test_pir_prim_flags'', ''test_sink_decomp'', ''test_prim_dynamic'']"
  by code_simp

lemma not_list_syntax_take:
  "\<not> list_ex list_syntax f \<Longrightarrow> \<not> list_ex list_syntax (take n f)"
  by (auto simp: list_ex_iff dest: in_set_takeD)

lemma globbed_module:
  assumes "glob_match ''test_*.py'' f" "plain_module_file f"
  shows "string_REPLACE ''.py'' [] f = module_of f"
    and "module_of f \<noteq> []"
    and "\<not> list_ex list_syntax (module_of f)"
    and "f = module_of f @ ''.py''"
proof -
  from assms(1) obtain m where f: "f = (''test_'' @ m) @ ''.py''"
    by (auto simp: glob_match_test_py)
  then have m: "module_of f = ''test_'' @ m"
    by (simp only: module_of_py)
  with f show "f = module_of f @ ''.py''" by simp
  from m show "module_of f \<noteq> []" by simp
  from assms(2) show "\<not> list_ex list_syntax (module_of f)"
    by (simp add: plain_module_file_def module_of_def not_list_syntax_take)
  from assms(2) m have "\<not> sublist ''.py'' (''test_'' @ m)"
    by (simp add: plain_module_file_def)
  then have "string_REPLACE ''.py'' [] ((''test_'' @ m) @ ''.py'') = ''test_'' @ m"
    by (rule string_REPLACE_py_extension)
  with f m show "string_REPLACE ''.py'' [] f = module_of f" by simp
qed

lemma set_globbed: "set (glob_names ''test_*.py'' directory) = {f \<in> set directory. glob_match ''test_*.py'' f}"
  by (simp add: glob_names_def)

lemma distinct_globbed: "distinct (glob_names ''test_*.py'' directory)"
  by (simp add: glob_names_def)

lemma globbed_modules_plain:
  assumes "\<forall>f \<in> set directory. glob_match ''test_*.py'' f \<longrightarrow> plain_module_file f"
  shows "\<forall>x \<in> set (map module_of (glob_names ''test_*.py'' directory)). x \<noteq> [] \<and> \<not> list_ex list_syntax x"
proof
  fix x
  assume "x \<in> set (map module_of (glob_names ''test_*.py'' directory))"
  then obtain f where "f \<in> set (glob_names ''test_*.py'' directory)" and x: "x = module_of f"
    by auto
  with assms have "glob_match ''test_*.py'' f" "plain_module_file f"
    by (auto simp: set_globbed)
  then show "x \<noteq> [] \<and> \<not> list_ex list_syntax x"
    unfolding x by (intro conjI globbed_module(2,3))
qed

lemma TRANS_cases:
  assumes "\<forall>f \<in> set directory. glob_match ''test_*.py'' f \<longrightarrow> plain_module_file f"
  shows "unquoted (TEST_PRIM_TRANS_PIR_CASES directory) =
    filter (\<lambda>m. m \<notin> set (unquoted TEST_PRIM_PURE_PIR_CASES)) (map module_of (glob_names ''test_*.py'' directory))"
proof -
  let ?names = "glob_names ''test_*.py'' directory"
  let ?mods = "map module_of ?names"
  have names: "\<forall>f \<in> set ?names. glob_match ''test_*.py'' f \<and> plain_module_file f"
    using assms by (simp add: set_globbed)
  have "string_REPLACE ''.py'' [] (file_GLOB ''test_*.py'' directory) =
        cmake_join (map (string_REPLACE ''.py'' []) ?names)"
    by (simp add: file_GLOB_def glob_names_def string_REPLACE_join)
  also have "map (string_REPLACE ''.py'' []) ?names = ?mods"
    using names by (simp add: globbed_module(1))
  finally have replaced:
    "string_REPLACE ''.py'' [] (file_GLOB ''test_*.py'' directory) = cmake_join ?mods" .
  have mods: "\<forall>x \<in> set ?mods. x \<noteq> [] \<and> \<not> list_ex list_syntax x"
    using assms by (rule globbed_modules_plain)
  then have "list_elements (cmake_join ?mods) = ?mods"
    by (rule list_elements_join)
  moreover have "unquoted (cmake_join (filter (\<lambda>m. m \<notin> set (unquoted TEST_PRIM_PURE_PIR_CASES)) ?mods))
    = filter (\<lambda>m. m \<notin> set (unquoted TEST_PRIM_PURE_PIR_CASES)) ?mods"
    using mods by (intro unquoted_join) auto
  ultimately show ?thesis
    by (simp add: TEST_PRIM_TRANS_PIR_CASES_def list_REMOVE_ITEM_def replaced)
qed

lemma trans_pir_tests_eq:
  assumes "\<forall>f \<in> set directory. glob_match ''test_*.py'' f \<longrightarrow> plain_module_file f"
  shows "trans_pir_tests directory = map trans_regime
    (filter (\<lambda>m. m \<notin> set (unquoted TEST_PRIM_PURE_PIR_CASES)) (map module_of (glob_names ''test_*.py'' directory)))"
proof -
  have "\<forall>t \<in> set (filter (\<lambda>m. m \<notin> set (unquoted TEST_PRIM_PURE_PIR_CASES))
          (map module_of (glob_names ''test_*.py'' directory))). unquoted t = [t]"
    using globbed_modules_plain [OF assms] by (auto intro: unquoted_plain)
  then show ?thesis
    by (simp add: trans_pir_tests_def TRANS_cases [OF assms] trans_regime_def)
qed

lemma distinct_modules:
  assumes "\<forall>f \<in> set directory. glob_match ''test_*.py'' f \<longrightarrow> plain_module_file f"
  shows "distinct (map module_of (glob_names ''test_*.py'' directory))"
proof -
  have "inj_on module_of (set (glob_names ''test_*.py'' directory))"
  proof (rule inj_onI)
    fix f g
    assume "f \<in> set (glob_names ''test_*.py'' directory)" "g \<in> set (glob_names ''test_*.py'' directory)"
      and eq: "module_of f = module_of g"
    with assms have "glob_match ''test_*.py'' f" "plain_module_file f"
      "glob_match ''test_*.py'' g" "plain_module_file g"
      by (auto simp: set_globbed)
    then have "f = module_of f @ ''.py''" "g = module_of g @ ''.py''"
      by (auto intro: globbed_module(4))
    with eq show "f = g" by simp
  qed
  with distinct_globbed show ?thesis
    by (simp add: distinct_map)
qed

lemma registered_target_regime [simp]:
  "registered_target (pure_regime t) = t" "registered_target (trans_regime t) = t"
  by (simp_all add: registered_target_def pure_regime_def trans_regime_def)

lemma regimes_differ: "pure_regime t \<noteq> trans_regime u"
  by (simp add: pure_regime_def trans_regime_def)

lemma regime_eq [simp]:
  "pure_regime t = pure_regime u \<longleftrightarrow> t = u" "trans_regime t = trans_regime u \<longleftrightarrow> t = u"
  by (simp_all add: pure_regime_def trans_regime_def)

lemma pure_regime_in:
  "pure_regime t \<in> set (map pure_regime xs @ map trans_regime ys) \<longleftrightarrow> t \<in> set xs"
  by (auto simp: regimes_differ)

lemma trans_regime_in:
  "trans_regime t \<in> set (map pure_regime xs @ map trans_regime ys) \<longleftrightarrow> t \<in> set ys"
  by (auto simp: regimes_differ [symmetric])

text \<open>
  The registrations for a directory whose files matching \<^verbatim>\<open>test_*.py\<close> are plain
  module files: no target is registered twice, the seven pure cases are registered by
  the first loop, every other module by the second, and none by both.
\<close>

lemma pir_prim_plain_files_registered_once:
  assumes plain: "\<forall>f \<in> set directory. glob_match ''test_*.py'' f \<longrightarrow> plain_module_file f"
  shows "distinct (map registered_target (pir_prim_CMakeLists directory))
    \<and> (\<forall>t \<in> set [''test_prim_program'', ''test_prim_simpnet'', ''test_prim_custom_vjp'',
                   ''test_prim_jit'', ''test_pir_prim_flags'', ''test_sink_decomp'',
                   ''test_prim_dynamic''].
          pure_regime t \<in> set (pir_prim_CMakeLists directory))
    \<and> (\<forall>f \<in> set directory.
          glob_match ''test_*.py'' f
          \<and> module_of f \<notin> set [''test_prim_program'', ''test_prim_simpnet'',
                                 ''test_prim_custom_vjp'', ''test_prim_jit'',
                                 ''test_pir_prim_flags'', ''test_sink_decomp'',
                                 ''test_prim_dynamic'']
          \<longrightarrow> trans_regime (module_of f) \<in> set (pir_prim_CMakeLists directory))
    \<and> (\<forall>t. \<not> (pure_regime t \<in> set (pir_prim_CMakeLists directory)
               \<and> trans_regime t \<in> set (pir_prim_CMakeLists directory)))"
proof -
  let ?pure = "[''test_prim_program'', ''test_prim_simpnet'', ''test_prim_custom_vjp'',
                ''test_prim_jit'', ''test_pir_prim_flags'', ''test_sink_decomp'',
                ''test_prim_dynamic'']"
  let ?others = "filter (\<lambda>m. m \<notin> set ?pure) (map module_of (glob_names ''test_*.py'' directory))"
  have calls: "pir_prim_CMakeLists directory = map pure_regime ?pure @ map trans_regime ?others"
    by (simp only: pir_prim_CMakeLists_def pure_pir_tests_eq trans_pir_tests_eq [OF plain]
        unquoted_PURE)
  have targets: "map registered_target (pir_prim_CMakeLists directory) = ?pure @ ?others"
    unfolding calls by (simp add: comp_def)
  have "distinct ?pure" by simp
  moreover have "distinct ?others"
    using distinct_modules [OF plain] by (rule distinct_filter)
  moreover have "set ?pure \<inter> set ?others = {}" by auto
  ultimately have once: "distinct (map registered_target (pir_prim_CMakeLists directory))"
    unfolding targets by (simp only: distinct_append)
  have pure: "\<forall>t \<in> set ?pure. pure_regime t \<in> set (pir_prim_CMakeLists directory)"
    unfolding calls by (simp only: pure_regime_in) simp
  have others: "\<forall>f \<in> set directory. glob_match ''test_*.py'' f \<and> module_of f \<notin> set ?pure
      \<longrightarrow> trans_regime (module_of f) \<in> set (pir_prim_CMakeLists directory)"
  proof (intro ballI impI)
    fix f
    assume "f \<in> set directory" "glob_match ''test_*.py'' f \<and> module_of f \<notin> set ?pure"
    then have "module_of f \<in> set ?others"
      by (simp add: set_globbed)
    then show "trans_regime (module_of f) \<in> set (pir_prim_CMakeLists directory)"
      unfolding calls by (simp only: trans_regime_in)
  qed
  have both: "\<forall>t. \<not> (pure_regime t \<in> set (pir_prim_CMakeLists directory)
               \<and> trans_regime t \<in> set (pir_prim_CMakeLists directory))"
  proof (intro allI notI)
    fix t
    assume "pure_regime t \<in> set (pir_prim_CMakeLists directory)
               \<and> trans_regime t \<in> set (pir_prim_CMakeLists directory)"
    then have p: "pure_regime t \<in> set (map pure_regime ?pure @ map trans_regime ?others)"
      and q: "trans_regime t \<in> set (map pure_regime ?pure @ map trans_regime ?others)"
      unfolding calls by simp_all
    from p have "t \<in> set ?pure"
      by (simp only: pure_regime_in)
    moreover from q have "t \<in> set ?others"
      by (simp only: trans_regime_in)
    ultimately show False by simp
  qed
  from once pure others both show ?thesis by blast
qed

text \<open>A Python module file that the glob finds is a plain module file.\<close>

lemma identifier_char_not_dot: "identifier_char c \<Longrightarrow> c \<noteq> CHR ''.''"
  by (auto simp: identifier_char_def less_eq_char_def)

lemma identifier_char_not_list_syntax: "identifier_char c \<Longrightarrow> \<not> list_syntax c"
  by (auto simp: identifier_char_def list_syntax_def less_eq_char_def)

lemma python_module_file_plain:
  assumes "glob_match ''test_*.py'' f" "python_module_file f"
  shows "plain_module_file f"
proof -
  from assms(1) obtain m where "f = (''test_'' @ m) @ ''.py''"
    by (auto simp: glob_match_test_py)
  then have f: "f = module_of f @ ''.py''"
    by (simp only: module_of_py)
  from assms(2) have ident: "\<forall>c \<in> set (module_of f). identifier_char c"
    by (simp add: python_module_file_def list_all_iff)
  have "\<not> sublist ''.py'' (module_of f)"
  proof
    assume "sublist ''.py'' (module_of f)"
    then have "set ''.py'' \<subseteq> set (module_of f)" by (rule set_mono_sublist)
    then have "CHR ''.'' \<in> set (module_of f)" by simp
    with ident show False by (auto dest: identifier_char_not_dot)
  qed
  moreover have "\<not> list_ex list_syntax f"
  proof -
    from ident have "\<not> list_ex list_syntax (module_of f)"
      by (auto simp: list_ex_iff dest: identifier_char_not_list_syntax)
    moreover have "\<not> list_ex list_syntax ''.py''"
      by (simp add: list_syntax_def)
    ultimately have "\<not> list_ex list_syntax (module_of f @ ''.py'')"
      by (simp only: list_ex_append simp_thms)
    with f show ?thesis by simp
  qed
  ultimately show ?thesis by (simp add: plain_module_file_def)
qed

text \<open>
  C6. In the test wiring of \<^verbatim>\<open>pir_prim\<close> every test module is registered exactly
  once. The test modules of the directory are its files matching \<^verbatim>\<open>test_*.py\<close>, each
  a Python module file. No target is registered twice; each of the seven targets of
  \<^verbatim>\<open>TEST_PRIM_PURE_PIR_CASES\<close> is registered with \<^verbatim>\<open>FLAGS_enable_pir_api=true\<close> and
  \<^verbatim>\<open>FLAGS_prim_skip_dynamic=1\<close>; every other \<^verbatim>\<open>test_*.py\<close> module of the directory
  is registered with \<^verbatim>\<open>FLAGS_enable_pir_in_executor=true\<close>; and no module is
  registered under both regimes, the pure cases being removed from the globbed list
  before the second loop.
\<close>

theorem pir_prim_modules_registered_once:
  assumes modules: "\<forall>f \<in> set directory. glob_match ''test_*.py'' f \<longrightarrow> python_module_file f"
  shows "distinct (map registered_target (pir_prim_CMakeLists directory))
    \<and> (\<forall>t \<in> set [''test_prim_program'', ''test_prim_simpnet'', ''test_prim_custom_vjp'',
                   ''test_prim_jit'', ''test_pir_prim_flags'', ''test_sink_decomp'',
                   ''test_prim_dynamic''].
          pure_regime t \<in> set (pir_prim_CMakeLists directory))
    \<and> (\<forall>f \<in> set directory.
          glob_match ''test_*.py'' f
          \<and> module_of f \<notin> set [''test_prim_program'', ''test_prim_simpnet'',
                                 ''test_prim_custom_vjp'', ''test_prim_jit'',
                                 ''test_pir_prim_flags'', ''test_sink_decomp'',
                                 ''test_prim_dynamic'']
          \<longrightarrow> trans_regime (module_of f) \<in> set (pir_prim_CMakeLists directory))
    \<and> (\<forall>t. \<not> (pure_regime t \<in> set (pir_prim_CMakeLists directory)
               \<and> trans_regime t \<in> set (pir_prim_CMakeLists directory)))"
proof -
  from modules have "\<forall>f \<in> set directory. glob_match ''test_*.py'' f \<longrightarrow> plain_module_file f"
    by (blast intro: python_module_file_plain)
  then show ?thesis by (rule pir_prim_plain_files_registered_once)
qed

theorem pir_prim_modules_registered_once_witness:
  "distinct (map registered_target (pir_prim_CMakeLists
      [''test_prim_jit.py'', ''CMakeLists.txt'', ''test_decomp_op.py'', ''test_prim_sub_graph.py'']))
   \<and> pure_regime ''test_prim_jit'' \<in> set (pir_prim_CMakeLists
      [''test_prim_jit.py'', ''CMakeLists.txt'', ''test_decomp_op.py'', ''test_prim_sub_graph.py''])
   \<and> trans_regime ''test_decomp_op'' \<in> set (pir_prim_CMakeLists
      [''test_prim_jit.py'', ''CMakeLists.txt'', ''test_decomp_op.py'', ''test_prim_sub_graph.py''])
   \<and> trans_regime ''test_prim_jit'' \<notin> set (pir_prim_CMakeLists
      [''test_prim_jit.py'', ''CMakeLists.txt'', ''test_decomp_op.py'', ''test_prim_sub_graph.py''])"
proof -
  have modules: "\<forall>f \<in> set [''test_prim_jit.py'', ''CMakeLists.txt'', ''test_decomp_op.py'',
      ''test_prim_sub_graph.py'']. glob_match ''test_*.py'' f \<longrightarrow> python_module_file f"
    by (simp add: python_module_file_def module_of_def identifier_char_def less_eq_char_def)
  have m: "module_of ''test_decomp_op.py'' = ''test_decomp_op''"
    by (simp add: module_of_def)
  from pir_prim_modules_registered_once [OF modules] m show ?thesis
    by simp
qed

text \<open>
  The hypothesis is about module names only. \<^verbatim>\<open>string(REPLACE ".py" "" ...)\<close> removes
  every occurrence of \<^verbatim>\<open>.py\<close>, and the list is read back at its semicolons: for a
  file whose stem is not a module name, such as \<^verbatim>\<open>test_.pya.py\<close> or
  \<^verbatim>\<open>test_a;test_b.py\<close> beside \<^verbatim>\<open>test_a.py\<close>, the second loop registers the
  target \<^verbatim>\<open>test_a\<close> twice.
\<close>

lemma pir_prim_stem_with_py:
  "\<not> distinct (map registered_target (pir_prim_CMakeLists [''test_a.py'', ''test_.pya.py'']))"
  by code_simp

lemma pir_prim_stem_with_semicolon:
  "\<not> distinct (map registered_target (pir_prim_CMakeLists [''test_a.py'', ''test_a;test_b.py'']))"
  by code_simp

text \<open>
  C7. The test list declares the target \<^verbatim>\<open>test_mkldnn_cpu_quantize_pass\<close>, once and
  with \<^verbatim>\<open>cc_test\<close>, whatever the build options are, and its dependencies include
  \<^verbatim>\<open>conv_activation_mkldnn_fuse_pass\<close>, \<^verbatim>\<open>cpu_quantize_placement_pass\<close> and
  \<^verbatim>\<open>cpu_quantize_pass\<close>: an operator fusion pass and the quantization passes.
\<close>

theorem test_mkldnn_cpu_quantize_pass_declared:
  "\<exists>arguments.
     filter (\<lambda>i. registered_target i = ''test_mkldnn_cpu_quantize_pass'') (mkldnn_test_list opts)
       = [(''cc_test'', arguments)]
     \<and> ''conv_activation_mkldnn_fuse_pass'' \<in> set (DEPS arguments)
     \<and> ''cpu_quantize_placement_pass'' \<in> set (DEPS arguments)
     \<and> ''cpu_quantize_pass'' \<in> set (DEPS arguments)"
  by (simp add: mkldnn_test_list_def registered_target_def DEPS_def)

end
